theory Spec2Isabelle
  imports Main "HOL-Library.Word"
begin

section \<open>The Pyroscope client of the Grafana datasource\<close>

text \<open>
  A shallow embedding of \<^verbatim>\<open>pkg/tsdb/grafana-pyroscope-datasource/pyroscopeClient.go\<close>.
  The five methods of \<^verbatim>\<open>PyroscopeClient\<close> each make one call on the generated
  querier stub and map the answer into the types of the datasource. The stub is a
  parameter of the model: a record of five functions, each returning either the
  error of the call or the decoded message.
\<close>

subsection \<open>Go values\<close>

text \<open>
  A Go pointer is an \<open>option\<close> (\<open>None\<close> is \<^verbatim>\<open>nil\<close>). A Go slice is a list
  behind an \<open>option\<close>, since the source tells the nil slice from the empty one
  (\<^verbatim>\<open>ProfileTypes\<close> returns \<^verbatim>\<open>[]*ProfileType{}\<close> where the message holds nil).
  \<^verbatim>\<open>int64\<close> is a 64-bit word; a \<^verbatim>\<open>float64\<close> is carried as its 64 bits, the
  source only copies it. A string is its bytes.
\<close>

type_synonym 'a ptr = "'a option"
type_synonym 'a slice = "'a list option"
type_synonym int64 = "64 word"
type_synonym float64 = "64 word"

text \<open>The run-time panic of an index expression out of range.\<close>

datatype panic = index_out_of_range

text \<open>
  An \<^verbatim>\<open>error\<close> value: one the transport hands back (with its \<^verbatim>\<open>Error()\<close> text),
  or the one \<^verbatim>\<open>fmt.Errorf\<close> builds from a format without \<^verbatim>\<open>%w\<close>.
\<close>

datatype error = ConnectError string | errorString string

fun Error :: "error \<Rightarrow> string" where
  "Error (ConnectError msg) = msg"
| "Error (errorString msg) = msg"

text \<open>\<^verbatim>\<open>len(s)\<close> and the elements \<^verbatim>\<open>range s\<close> visits: none for the nil slice.\<close>

fun elems :: "'a slice \<Rightarrow> 'a list" where
  "elems None = []"
| "elems (Some xs) = xs"

definition len :: "'a slice \<Rightarrow> nat" where
  "len s = length (elems s)"

text \<open>\<^verbatim>\<open>make([]*T, n)\<close>: a slice of \<open>n\<close> nil pointers, never the nil slice.\<close>

definition make_ptrs :: "nat \<Rightarrow> 'a ptr list" where
  "make_ptrs n = replicate n None"

text \<open>\<^verbatim>\<open>xs[i]\<close> read and \<^verbatim>\<open>xs[i] = v\<close> written: both panic out of range.\<close>

definition index :: "'a list \<Rightarrow> nat \<Rightarrow> panic + 'a" where
  "index xs i = (if i < length xs then Inr (xs ! i) else Inl index_out_of_range)"

definition assign :: "'a list \<Rightarrow> nat \<Rightarrow> 'a \<Rightarrow> panic + 'a list" where
  "assign xs i v = (if i < length xs then Inr (xs[i := v]) else Inl index_out_of_range)"

text \<open>
  The loop \<^verbatim>\<open>for i, x := range xs { out[i] = &T{...} }\<close>, started at index \<open>i\<close>;
  \<open>body x\<close> builds the struct whose address is stored.
\<close>

fun range_assign :: "('a \<Rightarrow> panic + 'b) \<Rightarrow> nat \<Rightarrow> 'a list \<Rightarrow> 'b ptr list \<Rightarrow> panic + 'b ptr list" where
  "range_assign body i [] out = Inr out"
| "range_assign body i (x # xs) out =
     (case body x of
        Inl p \<Rightarrow> Inl p
      | Inr v \<Rightarrow>
          (case assign out i (Some v) of
             Inl p \<Rightarrow> Inl p
           | Inr out' \<Rightarrow> range_assign body (Suc i) xs out'))"

text \<open>The builtin \<^verbatim>\<open>append(s, x)\<close>: appending to the nil slice gives a slice.\<close>

fun append_slice :: "'a slice \<Rightarrow> 'a \<Rightarrow> 'a slice" where
  "append_slice None x = Some [x]"
| "append_slice (Some xs) x = Some (xs @ [x])"

text \<open>
  \<^verbatim>\<open>strings.Split(s, sep)\<close> for a separator of one byte: the pieces of \<open>s\<close>
  between the separators, one more than there are separators (so one piece, the
  empty string, for the empty string).
\<close>

fun Split :: "string \<Rightarrow> char \<Rightarrow> string list" where
  "Split [] sep = [[]]"
| "Split (b # s) sep =
     (if b = sep then [] # Split s sep
      else (case Split s sep of
              [] \<Rightarrow> [[b]]
            | piece # pieces \<Rightarrow> (b # piece) # pieces))"

text \<open>\<^verbatim>\<open>strings.HasPrefix(s, prefix)\<close>.\<close>

definition HasPrefix :: "string \<Rightarrow> string \<Rightarrow> bool" where
  "HasPrefix s pre = (length pre \<le> length s \<and> take (length pre) s = pre)"

subsection \<open>The types of the datasource\<close>

record ProfileType =
  ID :: string
  Label :: string

record Level =
  Values :: "int64 slice"

record Flamebearer =
  Names :: "string slice"
  Levels :: "Level ptr slice"
  Total :: int64
  MaxSelf :: int64

record LabelPair =
  Name :: string
  Value :: string

record Point =
  Value :: float64
  Timestamp :: int64

record Series =
  Labels :: "LabelPair ptr slice"
  Points :: "Point ptr slice"

record ProfileResponse =
  Flamebearer :: "Flamebearer ptr"
  Units :: string

record SeriesResponse =
  Series :: "Series ptr slice"
  Units :: string
  Label :: string

subsection \<open>The messages of the querier service\<close>

text \<open>
  Modelled from the spec: the generated message types of the querier API
  (\<^verbatim>\<open>querierv1\<close>), which are declared outside this file. The spec's table of the
  remote service gives their shape: ProfileTypes answers a list of
  \<open>{id, name, sampleType}\<close>, SelectSeries a list of \<open>{labels[], points[{value,
  timestamp}]}\<close>, SelectMergeStacktraces an optional \<open>{names[], levels[{values[]}],
  total, maxSelf}\<close>, LabelNames and LabelValues a list of strings. Only the fields
  the client reads or writes are kept. A decoded repeated field holds no nil
  element, so its elements are values here.
\<close>

record v1_ProfileType =
  pt_ID :: string
  pt_Name :: string
  pt_SampleType :: string

record v1_LabelPair =
  lp_Name :: string
  lp_Value :: string

record v1_Point =
  p_Value :: float64
  p_Timestamp :: int64

record v1_Series =
  s_Labels :: "v1_LabelPair slice"
  s_Points :: "v1_Point slice"

record v1_Level =
  l_Values :: "int64 slice"

record v1_FlameGraph =
  fg_Names :: "string slice"
  fg_Levels :: "v1_Level slice"
  fg_Total :: int64
  fg_MaxSelf :: int64

record ProfileTypesResponse =
  r_ProfileTypes :: "v1_ProfileType slice"

record SelectSeriesRequest =
  ss_ProfileTypeID :: string
  ss_LabelSelector :: string
  ss_Start :: int64
  ss_End :: int64
  ss_Step :: float64
  ss_GroupBy :: "string slice"

record SelectSeriesResponse =
  r_Series :: "v1_Series slice"

record SelectMergeStacktracesRequest =
  sm_ProfileTypeID :: string
  sm_LabelSelector :: string
  sm_Start :: int64
  sm_End :: int64
  sm_MaxNodes :: "int64 ptr"

record SelectMergeStacktracesResponse =
  r_Flamegraph :: "v1_FlameGraph ptr"

record LabelNamesResponse =
  ln_Names :: "string slice"

record LabelValuesRequest =
  lv_Name :: string

record LabelValuesResponse =
  lv_Names :: "string slice"

text \<open>
  Modelled from the spec: the stub \<^verbatim>\<open>querierv1connect.QuerierServiceClient\<close>, an
  interface declared outside this file. Each call takes the context and the
  request message and gives back the error or the response message (the
  \<^verbatim>\<open>connect.Request\<close> and \<^verbatim>\<open>connect.Response\<close> wrappers are left out). The two
  requests without fields are not passed.
\<close>

record 'ctx QuerierServiceClient =
  rpc_ProfileTypes :: "'ctx \<Rightarrow> error + ProfileTypesResponse"
  rpc_SelectSeries :: "'ctx \<Rightarrow> SelectSeriesRequest \<Rightarrow> error + SelectSeriesResponse"
  rpc_SelectMergeStacktraces ::
    "'ctx \<Rightarrow> SelectMergeStacktracesRequest \<Rightarrow> error + SelectMergeStacktracesResponse"
  rpc_LabelNames :: "'ctx \<Rightarrow> error + LabelNamesResponse"
  rpc_LabelValues :: "'ctx \<Rightarrow> LabelValuesRequest \<Rightarrow> error + LabelValuesResponse"

record 'ctx PyroscopeClient =
  connectClient :: "'ctx QuerierServiceClient"

subsection \<open>The methods\<close>

text \<open>
  A method that indexes a slice gives \<open>Inl\<close> the panic or \<open>Inr\<close> the pair
  \<^verbatim>\<open>(result, err)\<close> it returns; a method without an index expression gives the
  pair.
\<close>

definition ProfileTypes ::
  "'ctx PyroscopeClient \<Rightarrow> 'ctx \<Rightarrow> panic + (ProfileType ptr slice \<times> error option)" where
  "ProfileTypes c ctx =
     (case rpc_ProfileTypes (connectClient c) ctx of
        Inl err \<Rightarrow> Inr (None, Some err)
      | Inr res \<Rightarrow>
          (case r_ProfileTypes res of
             None \<Rightarrow> Inr (Some [], None)
           | Some types \<Rightarrow>
               (case range_assign
                       (\<lambda>pType. Inr \<lparr>ID = pt_ID pType,
                                      Label = pt_Name pType @ '' - '' @ pt_SampleType pType\<rparr>)
                       0 types (make_ptrs (length types)) of
                  Inl p \<Rightarrow> Inl p
                | Inr pTypes \<Rightarrow> Inr (Some pTypes, None))))"

definition getUnits :: "string \<Rightarrow> panic + string" where
  "getUnits profileTypeID =
     (let parts = Split profileTypeID CHR '':'' in
      case index parts 2 of
        Inl p \<Rightarrow> Inl p
      | Inr unit \<Rightarrow>
          Inr (if unit = ''nanoseconds'' then ''ns''
               else if unit = ''count'' then ''short''
               else unit))"

text \<open>
  The body of the loop over \<^verbatim>\<open>resp.Msg.Series\<close>: the two inner loops. In the
  return statement of \<open>GetSeries\<close> the call of \<open>getUnits\<close> and the index
  expression \<^verbatim>\<open>parts[1]\<close> raise the same panic, so the order in which the model
  takes them does not show in the outcome.
\<close>

definition series_of :: "v1_Series \<Rightarrow> panic + Series" where
  "series_of s =
     (case range_assign (\<lambda>l. Inr \<lparr>Name = lp_Name l, Value = lp_Value l\<rparr>)
             0 (elems (s_Labels s)) (make_ptrs (len (s_Labels s))) of
        Inl p \<Rightarrow> Inl p
      | Inr labels \<Rightarrow>
          (case range_assign (\<lambda>p. Inr \<lparr>Value = p_Value p, Timestamp = p_Timestamp p\<rparr>)
                  0 (elems (s_Points s)) (make_ptrs (len (s_Points s))) of
             Inl p \<Rightarrow> Inl p
           | Inr points \<Rightarrow> Inr \<lparr>Labels = Some labels, Points = Some points\<rparr>))"

definition GetSeries ::
  "'ctx PyroscopeClient \<Rightarrow> 'ctx \<Rightarrow> string \<Rightarrow> string \<Rightarrow> int64 \<Rightarrow> int64 \<Rightarrow> string slice \<Rightarrow> float64
     \<Rightarrow> panic + (SeriesResponse ptr \<times> error option)" where
  "GetSeries c ctx profileTypeID labelSelector start end' groupBy step =
     (let req = \<lparr>ss_ProfileTypeID = profileTypeID, ss_LabelSelector = labelSelector,
                 ss_Start = start, ss_End = end', ss_Step = step, ss_GroupBy = groupBy\<rparr> in
      case rpc_SelectSeries (connectClient c) ctx req of
        Inl err \<Rightarrow> Inr (None, Some err)
      | Inr resp \<Rightarrow>
          (case range_assign series_of 0 (elems (r_Series resp)) (make_ptrs (len (r_Series resp))) of
             Inl p \<Rightarrow> Inl p
           | Inr series \<Rightarrow>
               (let parts = Split profileTypeID CHR '':'' in
                case getUnits profileTypeID of
                  Inl p \<Rightarrow> Inl p
                | Inr units \<Rightarrow>
                    (case index parts 1 of
                       Inl p \<Rightarrow> Inl p
                     | Inr label \<Rightarrow>
                         Inr (Some \<lparr>Series = Some series, Units = units, Label = label\<rparr>,
                              None)))))"

definition GetProfile ::
  "'ctx PyroscopeClient \<Rightarrow> 'ctx \<Rightarrow> string \<Rightarrow> string \<Rightarrow> int64 \<Rightarrow> int64 \<Rightarrow> int64 ptr
     \<Rightarrow> panic + (ProfileResponse ptr \<times> error option)" where
  "GetProfile c ctx profileTypeID labelSelector start end' maxNodes =
     (let req = \<lparr>sm_ProfileTypeID = profileTypeID, sm_LabelSelector = labelSelector,
                 sm_Start = start, sm_End = end', sm_MaxNodes = maxNodes\<rparr> in
      case rpc_SelectMergeStacktraces (connectClient c) ctx req of
        Inl err \<Rightarrow> Inr (None, Some err)
      | Inr resp \<Rightarrow>
          (case r_Flamegraph resp of
             None \<Rightarrow> Inr (None, None)
           | Some flamegraph \<Rightarrow>
               (case range_assign (\<lambda>level. Inr \<lparr>Values = l_Values level\<rparr>)
                       0 (elems (fg_Levels flamegraph)) (make_ptrs (len (fg_Levels flamegraph))) of
                  Inl p \<Rightarrow> Inl p
                | Inr levels \<Rightarrow>
                    (case getUnits profileTypeID of
                       Inl p \<Rightarrow> Inl p
                     | Inr units \<Rightarrow>
                         Inr (Some \<lparr>Flamebearer =
                                      Some \<lparr>Names = fg_Names flamegraph,
                                            Levels = Some levels,
                                            Total = fg_Total flamegraph,
                                            MaxSelf = fg_MaxSelf flamegraph\<rparr>,
                                    Units = units\<rparr>,
                              None)))))"

definition isPrivateLabel :: "string \<Rightarrow> bool" where
  "isPrivateLabel label = HasPrefix label ''__''"

text \<open>The loop of \<^verbatim>\<open>LabelNames\<close> over the names, \<open>filtered\<close> being nil at first.\<close>

fun filter_labels :: "string list \<Rightarrow> string slice \<Rightarrow> string slice" where
  "filter_labels [] filtered = filtered"
| "filter_labels (label # rest) filtered =
     filter_labels rest
       (if \<not> isPrivateLabel label then append_slice filtered label else filtered)"

definition LabelNames :: "'ctx PyroscopeClient \<Rightarrow> 'ctx \<Rightarrow> string slice \<times> error option" where
  "LabelNames c ctx =
     (case rpc_LabelNames (connectClient c) ctx of
        Inl err \<Rightarrow> (None, Some (errorString (''error seding LabelNames request '' @ Error err)))
      | Inr resp \<Rightarrow> (filter_labels (elems (ln_Names resp)) None, None))"

definition LabelValues ::
  "'ctx PyroscopeClient \<Rightarrow> 'ctx \<Rightarrow> string \<Rightarrow> string slice \<times> error option" where
  "LabelValues c ctx label =
     (case rpc_LabelValues (connectClient c) ctx \<lparr>lv_Name = label\<rparr> of
        Inl err \<Rightarrow> (None, Some err)
      | Inr resp \<Rightarrow> (lv_Names resp, None))"

subsection \<open>The unit normalizer of the spec, and a stub for examples\<close>

text \<open>
  The Unit Normalizer in the spec's words (spec 4.6): \<open>"nanoseconds"\<close> becomes
  \<open>"ns"\<close>, \<open>"count"\<close> becomes \<open>"short"\<close>, any other token is returned unchanged.
  The source has no function of this name; \<open>getUnits\<close>, which takes the whole
  identifier, is compared with it below.
\<close>

definition NormalizeUnit :: "string \<Rightarrow> string" where
  "NormalizeUnit token =
     (if token = ''nanoseconds'' then ''ns''
      else if token = ''count'' then ''short''
      else token)"

text \<open>
  An in-memory stub for the examples: it answers each of the five calls with a
  fixed outcome, whatever the context and the request.
\<close>

definition fake ::
  "error + ProfileTypesResponse \<Rightarrow> error + SelectSeriesResponse
     \<Rightarrow> error + SelectMergeStacktracesResponse \<Rightarrow> error + LabelNamesResponse
     \<Rightarrow> error + LabelValuesResponse \<Rightarrow> unit PyroscopeClient" where
  "fake types series stacktraces names vals =
     \<lparr>connectClient =
        \<lparr>rpc_ProfileTypes = (\<lambda>ctx. types),
         rpc_SelectSeries = (\<lambda>ctx req. series),
         rpc_SelectMergeStacktraces = (\<lambda>ctx req. stacktraces),
         rpc_LabelNames = (\<lambda>ctx. names),
         rpc_LabelValues = (\<lambda>ctx req. vals)\<rparr>\<rparr>"

section \<open>Properties\<close>

subsection \<open>The loops and the string functions\<close>

lemma range_assign_Inr:
  "i + length xs \<le> length out \<Longrightarrow>
   range_assign (\<lambda>x. Inr (g x)) i xs out =
     Inr (take i out @ map (\<lambda>x. Some (g x)) xs @ drop (i + length xs) out)"
proof (induction xs arbitrary: i out)
  case Nil
  then show ?case by simp
next
  case (Cons x xs)
  then have lt: "i < length out" by simp
  from Cons.prems have "Suc i + length xs \<le> length (out[i := Some (g x)])" by simp
  from Cons.IH [OF this] lt show ?case
    by (simp add: assign_def take_Suc_conv_app_nth)
qed

lemma range_assign_make:
  "range_assign (\<lambda>x. Inr (g x)) 0 xs (make_ptrs (length xs)) = Inr (map (\<lambda>x. Some (g x)) xs)"
  using range_assign_Inr [of 0 xs "make_ptrs (length xs)" g] by (simp add: make_ptrs_def)

lemma Split_not_Nil: "Split s sep \<noteq> []"
  by (induction s) (auto split: list.splits)

lemma Split_Cons_sep: "sep \<notin> set k \<Longrightarrow> Split (k @ sep # rest) sep = k # Split rest sep"
  by (induction k) auto

lemma Split_no_sep: "sep \<notin> set t \<Longrightarrow> Split t sep = [t]"
  by (induction t) auto

lemma length_Split: "length (Split s sep) = Suc (count_list s sep)"
  by (induction s) (auto split: list.splits simp: Split_not_Nil)

lemma Split_three:
  assumes "CHR '':'' \<notin> set kind" "CHR '':'' \<notin> set sampleType" "CHR '':'' \<notin> set token"
  shows "Split (kind @ '':'' @ sampleType @ '':'' @ token) CHR '':'' = [kind, sampleType, token]"
  using assms by (simp add: Split_Cons_sep Split_no_sep)

lemma isPrivateLabel_iff: "isPrivateLabel l \<longleftrightarrow> (\<exists>rest. l = ''__'' @ rest)"
  unfolding isPrivateLabel_def HasPrefix_def
  by (cases l; cases "tl l") auto

lemma elems_append_slice: "elems (append_slice s x) = elems s @ [x]"
  by (cases s) simp_all

lemma elems_filter_labels:
  "elems (filter_labels xs acc) = elems acc @ filter (\<lambda>l. \<not> isPrivateLabel l) xs"
  by (induction xs arbitrary: acc) (simp_all add: elems_append_slice)

lemma filter_labels_Some: "filter_labels xs (Some ys) \<noteq> None"
  by (induction xs arbitrary: ys) simp_all

lemma filter_labels_nil:
  "filter_labels xs None = None \<longleftrightarrow> (\<forall>l\<in>set xs. isPrivateLabel l)"
  by (induction xs) (simp_all add: filter_labels_Some)

subsection \<open>The unit of an identifier\<close>

lemma getUnits_parts:
  "3 \<le> length (Split profileTypeID CHR '':'') \<Longrightarrow>
   getUnits profileTypeID = Inr (NormalizeUnit (Split profileTypeID CHR '':'' ! 2))"
  by (simp add: getUnits_def index_def NormalizeUnit_def Let_def)

lemma getUnits_panics:
  "length (Split profileTypeID CHR '':'') < 3 \<Longrightarrow>
   getUnits profileTypeID = Inl index_out_of_range"
  by (simp add: getUnits_def index_def Let_def)

lemma series_of_Inr:
  "series_of s =
     Inr \<lparr>Labels = Some (map (\<lambda>l. Some \<lparr>Name = lp_Name l, Value = lp_Value l\<rparr>)
                          (elems (s_Labels s))),
          Points = Some (map (\<lambda>p. Some \<lparr>Value = p_Value p, Timestamp = p_Timestamp p\<rparr>)
                          (elems (s_Points s)))\<rparr>"
  by (simp add: series_of_def len_def range_assign_make)

subsection \<open>What each method returns\<close>

lemma GetSeries_upstream_error:
  "rpc_SelectSeries (connectClient c) ctx
     \<lparr>ss_ProfileTypeID = profileTypeID, ss_LabelSelector = labelSelector,
      ss_Start = start, ss_End = end', ss_Step = step, ss_GroupBy = groupBy\<rparr> = Inl err \<Longrightarrow>
   GetSeries c ctx profileTypeID labelSelector start end' groupBy step = Inr (None, Some err)"
  by (simp add: GetSeries_def)

lemma GetSeries_upstream_ok:
  "rpc_SelectSeries (connectClient c) ctx
     \<lparr>ss_ProfileTypeID = profileTypeID, ss_LabelSelector = labelSelector,
      ss_Start = start, ss_End = end', ss_Step = step, ss_GroupBy = groupBy\<rparr> = Inr resp \<Longrightarrow>
   GetSeries c ctx profileTypeID labelSelector start end' groupBy step =
     (if length (Split profileTypeID CHR '':'') < 3 then Inl index_out_of_range
      else Inr (Some \<lparr>Series = Some (map (\<lambda>s. Some
                     \<lparr>Labels = Some (map (\<lambda>l. Some \<lparr>Name = lp_Name l, Value = lp_Value l\<rparr>)
                                      (elems (s_Labels s))),
                      Points = Some (map (\<lambda>p. Some \<lparr>Value = p_Value p, Timestamp = p_Timestamp p\<rparr>)
                                      (elems (s_Points s)))\<rparr>) (elems (r_Series resp))),
                  Units = NormalizeUnit (Split profileTypeID CHR '':'' ! 2),
                  Label = Split profileTypeID CHR '':'' ! 1\<rparr>, None))"
proof -
  have so: "series_of = (\<lambda>s. Inr \<lparr>Labels = Some (map (\<lambda>l. Some \<lparr>Name = lp_Name l, Value = lp_Value l\<rparr>)
                          (elems (s_Labels s))),
          Points = Some (map (\<lambda>p. Some \<lparr>Value = p_Value p, Timestamp = p_Timestamp p\<rparr>)
                          (elems (s_Points s)))\<rparr>)"
    by (rule ext) (rule series_of_Inr)
  assume "rpc_SelectSeries (connectClient c) ctx
     \<lparr>ss_ProfileTypeID = profileTypeID, ss_LabelSelector = labelSelector,
      ss_Start = start, ss_End = end', ss_Step = step, ss_GroupBy = groupBy\<rparr> = Inr resp"
  then show ?thesis
    by (simp add: GetSeries_def Let_def len_def so range_assign_make getUnits_panics
        getUnits_parts index_def)
qed

lemma GetProfile_upstream_error:
  "rpc_SelectMergeStacktraces (connectClient c) ctx
     \<lparr>sm_ProfileTypeID = profileTypeID, sm_LabelSelector = labelSelector,
      sm_Start = start, sm_End = end', sm_MaxNodes = maxNodes\<rparr> = Inl err \<Longrightarrow>
   GetProfile c ctx profileTypeID labelSelector start end' maxNodes = Inr (None, Some err)"
  by (simp add: GetProfile_def)

lemma GetProfile_no_flamegraph:
  "rpc_SelectMergeStacktraces (connectClient c) ctx
     \<lparr>sm_ProfileTypeID = profileTypeID, sm_LabelSelector = labelSelector,
      sm_Start = start, sm_End = end', sm_MaxNodes = maxNodes\<rparr> = Inr resp \<Longrightarrow>
   r_Flamegraph resp = None \<Longrightarrow>
   GetProfile c ctx profileTypeID labelSelector start end' maxNodes = Inr (None, None)"
  by (simp add: GetProfile_def)

lemma GetProfile_flamegraph:
  "rpc_SelectMergeStacktraces (connectClient c) ctx
     \<lparr>sm_ProfileTypeID = profileTypeID, sm_LabelSelector = labelSelector,
      sm_Start = start, sm_End = end', sm_MaxNodes = maxNodes\<rparr> = Inr resp \<Longrightarrow>
   r_Flamegraph resp = Some flamegraph \<Longrightarrow>
   GetProfile c ctx profileTypeID labelSelector start end' maxNodes =
     (if length (Split profileTypeID CHR '':'') < 3 then Inl index_out_of_range
      else Inr (Some \<lparr>Flamebearer =
                    Some \<lparr>Names = fg_Names flamegraph,
                          Levels = Some (map (\<lambda>level. Some \<lparr>Values = l_Values level\<rparr>)
                                          (elems (fg_Levels flamegraph))),
                          Total = fg_Total flamegraph,
                          MaxSelf = fg_MaxSelf flamegraph\<rparr>,
                  Units = NormalizeUnit (Split profileTypeID CHR '':'' ! 2)\<rparr>, None))"
  by (simp add: GetProfile_def len_def range_assign_make getUnits_panics getUnits_parts)

lemma ProfileTypes_upstream_ok:
  "rpc_ProfileTypes (connectClient c) ctx = Inr res \<Longrightarrow>
   ProfileTypes c ctx =
     Inr (Some (map (\<lambda>pType. Some \<lparr>ID = pt_ID pType,
                                   Label = pt_Name pType @ '' - '' @ pt_SampleType pType\<rparr>)
                  (elems (r_ProfileTypes res))), None)"
  by (cases "r_ProfileTypes res") (simp_all add: ProfileTypes_def range_assign_make)

lemma ProfileTypes_upstream_error:
  "rpc_ProfileTypes (connectClient c) ctx = Inl err \<Longrightarrow> ProfileTypes c ctx = Inr (None, Some err)"
  by (simp add: ProfileTypes_def)

subsection \<open>Unit normalization\<close>

text \<open>
  C4. The unit normalization is a total function of the identifier's unit token:
  for every identifier \<open>kind:sampleType:token\<close> (three components without a
  colon) \<open>getUnits\<close> returns, and returns what the spec's \<open>NormalizeUnit\<close> gives
  on the token: \<open>"ns"\<close> for \<open>"nanoseconds"\<close>, \<open>"short"\<close> for \<open>"count"\<close>, the token
  itself otherwise (so \<open>"bytes"\<close> for \<open>"bytes"\<close>). Normalizing the normalized
  token again changes nothing, in the code and in the spec's function. The same
  result comes out of any longer identifier whose third component is the token.
\<close>

theorem getUnits_NormalizeUnit:
  assumes "CHR '':'' \<notin> set kind" and "CHR '':'' \<notin> set sampleType" and "CHR '':'' \<notin> set token"
  shows "getUnits (kind @ '':'' @ sampleType @ '':'' @ ''nanoseconds'') = Inr ''ns''
       \<and> getUnits (kind @ '':'' @ sampleType @ '':'' @ ''count'') = Inr ''short''
       \<and> getUnits (kind @ '':'' @ sampleType @ '':'' @ ''bytes'') = Inr ''bytes''
       \<and> getUnits (kind @ '':'' @ sampleType @ '':'' @ token) = Inr (NormalizeUnit token)
       \<and> (token \<noteq> ''nanoseconds'' \<and> token \<noteq> ''count'' \<longrightarrow>
            getUnits (kind @ '':'' @ sampleType @ '':'' @ token) = Inr token)
       \<and> (\<forall>u. getUnits (kind @ '':'' @ sampleType @ '':'' @ token) = Inr u \<longrightarrow>
            getUnits (kind @ '':'' @ sampleType @ '':'' @ u) = Inr u)
       \<and> NormalizeUnit (NormalizeUnit token) = NormalizeUnit token
       \<and> (\<forall>profileTypeID more.
            Split profileTypeID CHR '':'' = kind # sampleType # token # more \<longrightarrow>
            getUnits profileTypeID = Inr (NormalizeUnit token))"
proof -
  have longer: "\<forall>profileTypeID more.
      Split profileTypeID CHR '':'' = kind # sampleType # token # more \<longrightarrow>
      getUnits profileTypeID = Inr (NormalizeUnit token)"
  proof (intro allI impI)
    fix profileTypeID more
    assume parts: "Split profileTypeID CHR '':'' = kind # sampleType # token # more"
    then have "3 \<le> length (Split profileTypeID CHR '':'')" by simp
    from getUnits_parts [OF this] parts
    show "getUnits profileTypeID = Inr (NormalizeUnit token)" by simp
  qed
  have tok: "getUnits (kind @ '':'' @ sampleType @ '':'' @ t) = Inr (NormalizeUnit t)"
    if "CHR '':'' \<notin> set t" for t
    using getUnits_parts [of "kind @ '':'' @ sampleType @ '':'' @ t"]
      Split_three [OF assms(1,2) that] by simp
  have colon: "CHR '':'' \<notin> set (NormalizeUnit token)"
    using assms(3) by (simp add: NormalizeUnit_def)
  have idem: "NormalizeUnit (NormalizeUnit token) = NormalizeUnit token"
    by (simp add: NormalizeUnit_def)
  have "getUnits (kind @ '':'' @ sampleType @ '':'' @ ''nanoseconds'') = Inr ''ns''"
    using tok [of "''nanoseconds''"] by (simp add: NormalizeUnit_def)
  moreover have "getUnits (kind @ '':'' @ sampleType @ '':'' @ ''count'') = Inr ''short''"
    using tok [of "''count''"] by (simp add: NormalizeUnit_def)
  moreover have "getUnits (kind @ '':'' @ sampleType @ '':'' @ ''bytes'') = Inr ''bytes''"
    using tok [of "''bytes''"] by (simp add: NormalizeUnit_def)
  moreover have "getUnits (kind @ '':'' @ sampleType @ '':'' @ token) = Inr (NormalizeUnit token)"
    using tok [OF assms(3)] .
  moreover have "token \<noteq> ''nanoseconds'' \<and> token \<noteq> ''count'' \<longrightarrow>
      getUnits (kind @ '':'' @ sampleType @ '':'' @ token) = Inr token"
    using tok [OF assms(3)] by (simp add: NormalizeUnit_def)
  moreover have "\<forall>u. getUnits (kind @ '':'' @ sampleType @ '':'' @ token) = Inr u \<longrightarrow>
      getUnits (kind @ '':'' @ sampleType @ '':'' @ u) = Inr u"
    using tok [OF assms(3)] tok [OF colon] idem by simp
  ultimately show ?thesis using idem longer by blast
qed

theorem getUnits_NormalizeUnit_witness:
  "getUnits ''process_cpu:cpu:nanoseconds'' = Inr ''ns''
   \<and> getUnits ''process_cpu:cpu:count'' = Inr ''short''
   \<and> getUnits ''process_cpu:cpu:bytes'' = Inr ''bytes''
   \<and> getUnits ''process_cpu:cpu:ns'' = Inr ''ns''
   \<and> getUnits ''process_cpu:cpu:nanoseconds:cpu:nanoseconds'' = Inr ''ns''"
  using getUnits_NormalizeUnit [of "''process_cpu''" "''cpu''" "''nanoseconds''"]
  by (simp add: NormalizeUnit_def)

subsection \<open>Malformed identifiers\<close>

text \<open>
  C1, as the spec states it, fails on the code: \<open>GetSeries\<close> has no check of the
  identifier and no invalid-identifier error. On \<open>"onlyonepart"\<close> with a
  successful upstream call it stops with the index-out-of-range panic of its
  unchecked index expressions (\<^verbatim>\<open>parts[2]\<close> in \<open>getUnits\<close>, \<^verbatim>\<open>parts[1]\<close> in
  \<open>GetSeries\<close>).
\<close>

theorem GetSeries_onlyonepart_panics:
  "GetSeries (fake (Inr \<lparr>r_ProfileTypes = None\<rparr>) (Inr \<lparr>r_Series = Some []\<rparr>)
               (Inr \<lparr>r_Flamegraph = None\<rparr>) (Inr \<lparr>ln_Names = None\<rparr>)
               (Inr \<lparr>lv_Names = None\<rparr>))
     () ''onlyonepart'' ''{}'' 0 1000 None 15 = Inl index_out_of_range"
  by (simp add: GetSeries_def fake_def getUnits_def index_def make_ptrs_def len_def)

text \<open>
  C1, amended. For every profileTypeID with fewer than three colon-delimited
  components \<open>GetSeries\<close> returns no series response: when the upstream call fails
  it returns that error with a nil result, and when the upstream call succeeds
  the unchecked index expression stops it with the index-out-of-range panic.
\<close>

theorem GetSeries_malformed:
  assumes "length (Split profileTypeID CHR '':'') < 3"
  shows "(rpc_SelectSeries (connectClient c) ctx
            \<lparr>ss_ProfileTypeID = profileTypeID, ss_LabelSelector = labelSelector,
             ss_Start = start, ss_End = end', ss_Step = step, ss_GroupBy = groupBy\<rparr> = Inl err \<longrightarrow>
          GetSeries c ctx profileTypeID labelSelector start end' groupBy step = Inr (None, Some err))
       \<and> (rpc_SelectSeries (connectClient c) ctx
            \<lparr>ss_ProfileTypeID = profileTypeID, ss_LabelSelector = labelSelector,
             ss_Start = start, ss_End = end', ss_Step = step, ss_GroupBy = groupBy\<rparr> = Inr resp \<longrightarrow>
          GetSeries c ctx profileTypeID labelSelector start end' groupBy step =
            Inl index_out_of_range)"
  using assms GetSeries_upstream_error [of c ctx profileTypeID labelSelector start end' step groupBy err]
    GetSeries_upstream_ok [of c ctx profileTypeID labelSelector start end' step groupBy resp]
  by simp

theorem GetSeries_malformed_witness:
  "length (Split ''onlyonepart'' CHR '':'') < 3
   \<and> GetSeries (fake (Inr \<lparr>r_ProfileTypes = None\<rparr>) (Inl (ConnectError ''unavailable''))
                  (Inr \<lparr>r_Flamegraph = None\<rparr>) (Inr \<lparr>ln_Names = None\<rparr>)
                  (Inr \<lparr>lv_Names = None\<rparr>))
        () ''onlyonepart'' ''{}'' 0 1000 None 15 = Inr (None, Some (ConnectError ''unavailable''))
   \<and> GetSeries (fake (Inr \<lparr>r_ProfileTypes = None\<rparr>) (Inr \<lparr>r_Series = None\<rparr>)
                  (Inr \<lparr>r_Flamegraph = None\<rparr>) (Inr \<lparr>ln_Names = None\<rparr>)
                  (Inr \<lparr>lv_Names = None\<rparr>))
        () ''cpu:nanoseconds'' ''{}'' 0 1000 None 15 = Inl index_out_of_range"
  using GetSeries_malformed [of "''onlyonepart''"
      "fake (Inr \<lparr>r_ProfileTypes = None\<rparr>) (Inl (ConnectError ''unavailable''))
                  (Inr \<lparr>r_Flamegraph = None\<rparr>) (Inr \<lparr>ln_Names = None\<rparr>)
                  (Inr \<lparr>lv_Names = None\<rparr>)" "()" "''{}''" 0 1000 15 None
      "ConnectError ''unavailable''"]
    GetSeries_malformed [of "''cpu:nanoseconds''"
      "fake (Inr \<lparr>r_ProfileTypes = None\<rparr>) (Inr \<lparr>r_Series = None\<rparr>)
                  (Inr \<lparr>r_Flamegraph = None\<rparr>) (Inr \<lparr>ln_Names = None\<rparr>)
                  (Inr \<lparr>lv_Names = None\<rparr>)" "()" "''{}''" 0 1000 15 None _ "\<lparr>r_Series = None\<rparr>"]
  by (simp add: fake_def)

subsection \<open>No data is not an error\<close>

text \<open>
  C2. When the merged-stacktrace response carries no flamegraph, \<open>GetProfile\<close>
  returns a nil result with a nil error; a transport error is returned as the
  error, next to a nil result, and so differs from the no-data outcome.
\<close>

theorem GetProfile_NoData:
  "(rpc_SelectMergeStacktraces (connectClient c) ctx
      \<lparr>sm_ProfileTypeID = profileTypeID, sm_LabelSelector = labelSelector,
       sm_Start = start, sm_End = end', sm_MaxNodes = maxNodes\<rparr> = Inr resp
    \<and> r_Flamegraph resp = None \<longrightarrow>
    GetProfile c ctx profileTypeID labelSelector start end' maxNodes = Inr (None, None))
   \<and> (rpc_SelectMergeStacktraces (connectClient c) ctx
      \<lparr>sm_ProfileTypeID = profileTypeID, sm_LabelSelector = labelSelector,
       sm_Start = start, sm_End = end', sm_MaxNodes = maxNodes\<rparr> = Inl err \<longrightarrow>
    GetProfile c ctx profileTypeID labelSelector start end' maxNodes = Inr (None, Some err)
    \<and> GetProfile c ctx profileTypeID labelSelector start end' maxNodes \<noteq> Inr (None, None))"
  using GetProfile_no_flamegraph [of c ctx profileTypeID labelSelector start end' maxNodes resp]
    GetProfile_upstream_error [of c ctx profileTypeID labelSelector start end' maxNodes err]
  by simp

theorem GetProfile_NoData_witness:
  "GetProfile (fake (Inr \<lparr>r_ProfileTypes = None\<rparr>) (Inr \<lparr>r_Series = None\<rparr>)
                 (Inr \<lparr>r_Flamegraph = None\<rparr>) (Inr \<lparr>ln_Names = None\<rparr>)
                 (Inr \<lparr>lv_Names = None\<rparr>))
      () ''process_cpu:cpu:nanoseconds'' ''{}'' 0 1000 None = Inr (None, None)
   \<and> GetProfile (fake (Inr \<lparr>r_ProfileTypes = None\<rparr>) (Inr \<lparr>r_Series = None\<rparr>)
                 (Inl (ConnectError ''unavailable'')) (Inr \<lparr>ln_Names = None\<rparr>)
                 (Inr \<lparr>lv_Names = None\<rparr>))
      () ''process_cpu:cpu:nanoseconds'' ''{}'' 0 1000 None =
        Inr (None, Some (ConnectError ''unavailable''))"
  using GetProfile_NoData [of "fake (Inr \<lparr>r_ProfileTypes = None\<rparr>) (Inr \<lparr>r_Series = None\<rparr>)
                 (Inr \<lparr>r_Flamegraph = None\<rparr>) (Inr \<lparr>ln_Names = None\<rparr>)
                 (Inr \<lparr>lv_Names = None\<rparr>)" "()" "''process_cpu:cpu:nanoseconds''" "''{}''" 0 1000 None
                 "\<lparr>r_Flamegraph = None\<rparr>"]
    GetProfile_NoData [of "fake (Inr \<lparr>r_ProfileTypes = None\<rparr>) (Inr \<lparr>r_Series = None\<rparr>)
                 (Inl (ConnectError ''unavailable'')) (Inr \<lparr>ln_Names = None\<rparr>)
                 (Inr \<lparr>lv_Names = None\<rparr>)" "()" "''process_cpu:cpu:nanoseconds''" "''{}''" 0 1000 None
                 _ "ConnectError ''unavailable''"]
  by (simp add: fake_def)

subsection \<open>The series response\<close>

text \<open>
  C3. For every profileTypeID with at least three colon-delimited components and
  every successful upstream response, \<open>GetSeries\<close> returns a response whose series
  are the upstream series in order, each with its labels and its points copied
  field for field in order; its Label is the identifier's second component and
  its Units the normalized third component. So \<open>"process_cpu:cpu:nanoseconds"\<close>
  gives Label \<open>"cpu"\<close> and Units \<open>"ns"\<close>, and \<open>"memory:inuse_space:bytes"\<close> gives
  Label \<open>"inuse_space"\<close> and Units \<open>"bytes"\<close>.
\<close>

theorem GetSeries_maps_series:
  assumes "3 \<le> length (Split profileTypeID CHR '':'')"
    and "rpc_SelectSeries (connectClient c) ctx
           \<lparr>ss_ProfileTypeID = profileTypeID, ss_LabelSelector = labelSelector,
            ss_Start = start, ss_End = end', ss_Step = step, ss_GroupBy = groupBy\<rparr> = Inr resp"
  shows "GetSeries c ctx profileTypeID labelSelector start end' groupBy step =
           Inr (Some \<lparr>Series = Some (map (\<lambda>s. Some
                         \<lparr>Labels = Some (map (\<lambda>l. Some \<lparr>Name = lp_Name l, Value = lp_Value l\<rparr>)
                                          (elems (s_Labels s))),
                          Points = Some (map (\<lambda>p. Some \<lparr>Value = p_Value p,
                                                         Timestamp = p_Timestamp p\<rparr>)
                                          (elems (s_Points s)))\<rparr>) (elems (r_Series resp))),
                      Units = NormalizeUnit (Split profileTypeID CHR '':'' ! 2),
                      Label = Split profileTypeID CHR '':'' ! 1\<rparr>, None)
       \<and> (profileTypeID = ''process_cpu:cpu:nanoseconds'' \<longrightarrow>
            (\<exists>series. GetSeries c ctx profileTypeID labelSelector start end' groupBy step =
               Inr (Some \<lparr>Series = series, Units = ''ns'', Label = ''cpu''\<rparr>, None)))
       \<and> (profileTypeID = ''memory:inuse_space:bytes'' \<longrightarrow>
            (\<exists>series. GetSeries c ctx profileTypeID labelSelector start end' groupBy step =
               Inr (Some \<lparr>Series = series, Units = ''bytes'', Label = ''inuse_space''\<rparr>, None)))"
  using assms GetSeries_upstream_ok [of c ctx profileTypeID labelSelector start end' step groupBy resp]
  by (auto simp: NormalizeUnit_def)

theorem GetSeries_maps_series_witness:
  "GetSeries (fake (Inr \<lparr>r_ProfileTypes = None\<rparr>)
                (Inr \<lparr>r_Series = Some [\<lparr>s_Labels = Some [\<lparr>lp_Name = ''job'', lp_Value = ''api''\<rparr>],
                                        s_Points = Some [\<lparr>p_Value = 7, p_Timestamp = 1000\<rparr>,
                                                         \<lparr>p_Value = 9, p_Timestamp = 2000\<rparr>]\<rparr>,
                                       \<lparr>s_Labels = None, s_Points = None\<rparr>]\<rparr>)
                (Inr \<lparr>r_Flamegraph = None\<rparr>) (Inr \<lparr>ln_Names = None\<rparr>)
                (Inr \<lparr>lv_Names = None\<rparr>))
     () ''process_cpu:cpu:nanoseconds'' ''{}'' 0 3000 None 15 =
       Inr (Some \<lparr>Series = Some [Some \<lparr>Labels = Some [Some \<lparr>Name = ''job'', Value = ''api''\<rparr>],
                                        Points = Some [Some \<lparr>Value = 7, Timestamp = 1000\<rparr>,
                                                       Some \<lparr>Value = 9, Timestamp = 2000\<rparr>]\<rparr>,
                                  Some \<lparr>Labels = Some [], Points = Some []\<rparr>],
                  Units = ''ns'', Label = ''cpu''\<rparr>, None)
   \<and> GetSeries (fake (Inr \<lparr>r_ProfileTypes = None\<rparr>) (Inr \<lparr>r_Series = None\<rparr>)
                (Inr \<lparr>r_Flamegraph = None\<rparr>) (Inr \<lparr>ln_Names = None\<rparr>)
                (Inr \<lparr>lv_Names = None\<rparr>))
     () ''memory:inuse_space:bytes'' ''{}'' 0 3000 None 15 =
       Inr (Some \<lparr>Series = Some [], Units = ''bytes'', Label = ''inuse_space''\<rparr>, None)"
  using GetSeries_maps_series [of "''process_cpu:cpu:nanoseconds''"
      "fake (Inr \<lparr>r_ProfileTypes = None\<rparr>)
                (Inr \<lparr>r_Series = Some [\<lparr>s_Labels = Some [\<lparr>lp_Name = ''job'', lp_Value = ''api''\<rparr>],
                                        s_Points = Some [\<lparr>p_Value = 7, p_Timestamp = 1000\<rparr>,
                                                         \<lparr>p_Value = 9, p_Timestamp = 2000\<rparr>]\<rparr>,
                                       \<lparr>s_Labels = None, s_Points = None\<rparr>]\<rparr>)
                (Inr \<lparr>r_Flamegraph = None\<rparr>) (Inr \<lparr>ln_Names = None\<rparr>)
                (Inr \<lparr>lv_Names = None\<rparr>)" "()" "''{}''" 0 3000 15 None
      "\<lparr>r_Series = Some [\<lparr>s_Labels = Some [\<lparr>lp_Name = ''job'', lp_Value = ''api''\<rparr>],
                                        s_Points = Some [\<lparr>p_Value = 7, p_Timestamp = 1000\<rparr>,
                                                         \<lparr>p_Value = 9, p_Timestamp = 2000\<rparr>]\<rparr>,
                                       \<lparr>s_Labels = None, s_Points = None\<rparr>]\<rparr>"]
    GetSeries_maps_series [of "''memory:inuse_space:bytes''"
      "fake (Inr \<lparr>r_ProfileTypes = None\<rparr>) (Inr \<lparr>r_Series = None\<rparr>)
                (Inr \<lparr>r_Flamegraph = None\<rparr>) (Inr \<lparr>ln_Names = None\<rparr>)
                (Inr \<lparr>lv_Names = None\<rparr>)" "()" "''{}''" 0 3000 15 None "\<lparr>r_Series = None\<rparr>"]
  by (simp add: fake_def NormalizeUnit_def)

subsection \<open>Profile types\<close>

text \<open>
  C5. On every successful upstream call \<open>ProfileTypes\<close> returns a slice that is
  not nil, with a nil error: the upstream entries in order, each with its ID
  copied and the Label \<open>Name + " - " + SampleType\<close>; the empty slice when the
  upstream message has no entry (a nil or an empty list).
\<close>

theorem ProfileTypes_present:
  "rpc_ProfileTypes (connectClient c) ctx = Inr res \<Longrightarrow>
   ProfileTypes c ctx =
     Inr (Some (map (\<lambda>pType. Some \<lparr>ID = pt_ID pType,
                                   Label = pt_Name pType @ '' - '' @ pt_SampleType pType\<rparr>)
                  (elems (r_ProfileTypes res))), None)
   \<and> (elems (r_ProfileTypes res) = [] \<longrightarrow> ProfileTypes c ctx = Inr (Some [], None))"
  using ProfileTypes_upstream_ok [of c ctx res] by simp

theorem ProfileTypes_present_witness:
  "ProfileTypes (fake (Inr \<lparr>r_ProfileTypes = None\<rparr>) (Inr \<lparr>r_Series = None\<rparr>)
                   (Inr \<lparr>r_Flamegraph = None\<rparr>) (Inr \<lparr>ln_Names = None\<rparr>)
                   (Inr \<lparr>lv_Names = None\<rparr>)) () = Inr (Some [], None)
   \<and> ProfileTypes (fake (Inr \<lparr>r_ProfileTypes = Some []\<rparr>) (Inr \<lparr>r_Series = None\<rparr>)
                   (Inr \<lparr>r_Flamegraph = None\<rparr>) (Inr \<lparr>ln_Names = None\<rparr>)
                   (Inr \<lparr>lv_Names = None\<rparr>)) () = Inr (Some [], None)
   \<and> ProfileTypes (fake (Inr \<lparr>r_ProfileTypes = Some
                           [\<lparr>pt_ID = ''process_cpu:cpu:nanoseconds:cpu:nanoseconds'',
                             pt_Name = ''process_cpu'', pt_SampleType = ''cpu''\<rparr>,
                            \<lparr>pt_ID = ''memory:inuse_space:bytes:space:bytes'',
                             pt_Name = ''memory'', pt_SampleType = ''inuse_space''\<rparr>]\<rparr>)
                   (Inr \<lparr>r_Series = None\<rparr>)
                   (Inr \<lparr>r_Flamegraph = None\<rparr>) (Inr \<lparr>ln_Names = None\<rparr>)
                   (Inr \<lparr>lv_Names = None\<rparr>)) () =
       Inr (Some [Some \<lparr>ID = ''process_cpu:cpu:nanoseconds:cpu:nanoseconds'',
                         Label = ''process_cpu - cpu''\<rparr>,
                  Some \<lparr>ID = ''memory:inuse_space:bytes:space:bytes'',
                         Label = ''memory - inuse_space''\<rparr>], None)"
  using ProfileTypes_present [of "fake (Inr \<lparr>r_ProfileTypes = None\<rparr>) (Inr \<lparr>r_Series = None\<rparr>)
                   (Inr \<lparr>r_Flamegraph = None\<rparr>) (Inr \<lparr>ln_Names = None\<rparr>)
                   (Inr \<lparr>lv_Names = None\<rparr>)" "()" "\<lparr>r_ProfileTypes = None\<rparr>"]
    ProfileTypes_present [of "fake (Inr \<lparr>r_ProfileTypes = Some []\<rparr>) (Inr \<lparr>r_Series = None\<rparr>)
                   (Inr \<lparr>r_Flamegraph = None\<rparr>) (Inr \<lparr>ln_Names = None\<rparr>)
                   (Inr \<lparr>lv_Names = None\<rparr>)" "()" "\<lparr>r_ProfileTypes = Some []\<rparr>"]
    ProfileTypes_present [of "fake (Inr \<lparr>r_ProfileTypes = Some
                           [\<lparr>pt_ID = ''process_cpu:cpu:nanoseconds:cpu:nanoseconds'',
                             pt_Name = ''process_cpu'', pt_SampleType = ''cpu''\<rparr>,
                            \<lparr>pt_ID = ''memory:inuse_space:bytes:space:bytes'',
                             pt_Name = ''memory'', pt_SampleType = ''inuse_space''\<rparr>]\<rparr>)
                   (Inr \<lparr>r_Series = None\<rparr>)
                   (Inr \<lparr>r_Flamegraph = None\<rparr>) (Inr \<lparr>ln_Names = None\<rparr>)
                   (Inr \<lparr>lv_Names = None\<rparr>)" "()" "\<lparr>r_ProfileTypes = Some
                           [\<lparr>pt_ID = ''process_cpu:cpu:nanoseconds:cpu:nanoseconds'',
                             pt_Name = ''process_cpu'', pt_SampleType = ''cpu''\<rparr>,
                            \<lparr>pt_ID = ''memory:inuse_space:bytes:space:bytes'',
                             pt_Name = ''memory'', pt_SampleType = ''inuse_space''\<rparr>]\<rparr>"]
  by (simp add: fake_def)

subsection \<open>Label names and label values\<close>

text \<open>
  C6. For every upstream list of label names \<open>LabelNames\<close> returns exactly the
  names that do not start with two underscores, in their upstream order; the
  list \<open>["__name__", "job", "instance", "__meta_x"]\<close> gives \<open>["job", "instance"]\<close>.
\<close>

theorem LabelNames_filters_private:
  assumes "rpc_LabelNames (connectClient c) ctx = Inr resp"
  shows "elems (fst (LabelNames c ctx)) =
           filter (\<lambda>name. \<not> (\<exists>rest. name = ''__'' @ rest)) (elems (ln_Names resp))
       \<and> snd (LabelNames c ctx) = None
       \<and> (elems (ln_Names resp) = [''__name__'', ''job'', ''instance'', ''__meta_x''] \<longrightarrow>
            LabelNames c ctx = (Some [''job'', ''instance''], None))"
proof -
  have ln: "LabelNames c ctx = (filter_labels (elems (ln_Names resp)) None, None)"
    using assms by (simp add: LabelNames_def)
  have "elems (fst (LabelNames c ctx)) =
      filter (\<lambda>name. \<not> (\<exists>rest. name = ''__'' @ rest)) (elems (ln_Names resp))"
    by (simp add: ln elems_filter_labels isPrivateLabel_iff)
  moreover have "snd (LabelNames c ctx) = None"
    by (simp add: ln)
  moreover have "elems (ln_Names resp) = [''__name__'', ''job'', ''instance'', ''__meta_x''] \<longrightarrow>
      LabelNames c ctx = (Some [''job'', ''instance''], None)"
    by (simp add: ln isPrivateLabel_def HasPrefix_def)
  ultimately show ?thesis by blast
qed

theorem LabelNames_filters_private_witness:
  "LabelNames (fake (Inr \<lparr>r_ProfileTypes = None\<rparr>) (Inr \<lparr>r_Series = None\<rparr>)
                 (Inr \<lparr>r_Flamegraph = None\<rparr>)
                 (Inr \<lparr>ln_Names = Some [''__name__'', ''job'', ''instance'', ''__meta_x'']\<rparr>)
                 (Inr \<lparr>lv_Names = None\<rparr>)) () = (Some [''job'', ''instance''], None)"
  using LabelNames_filters_private [of
      "fake (Inr \<lparr>r_ProfileTypes = None\<rparr>) (Inr \<lparr>r_Series = None\<rparr>)
                 (Inr \<lparr>r_Flamegraph = None\<rparr>)
                 (Inr \<lparr>ln_Names = Some [''__name__'', ''job'', ''instance'', ''__meta_x'']\<rparr>)
                 (Inr \<lparr>lv_Names = None\<rparr>)" "()"
      "\<lparr>ln_Names = Some [''__name__'', ''job'', ''instance'', ''__meta_x'']\<rparr>"]
  by (simp add: fake_def)

text \<open>
  C7. For every label name, also one with the reserved prefix such as
  \<open>"__name__"\<close>, \<open>LabelValues\<close> returns the upstream list as it is: nothing is
  filtered out of the values.
\<close>

theorem LabelValues_unfiltered:
  "rpc_LabelValues (connectClient c) ctx \<lparr>lv_Name = label\<rparr> = Inr resp \<Longrightarrow>
   LabelValues c ctx label = (lv_Names resp, None)"
  by (simp add: LabelValues_def)

theorem LabelValues_unfiltered_witness:
  "isPrivateLabel ''__name__''
   \<and> LabelValues (fake (Inr \<lparr>r_ProfileTypes = None\<rparr>) (Inr \<lparr>r_Series = None\<rparr>)
                   (Inr \<lparr>r_Flamegraph = None\<rparr>) (Inr \<lparr>ln_Names = None\<rparr>)
                   (Inr \<lparr>lv_Names = Some [''process_cpu'', ''__hidden'', ''memory'']\<rparr>))
        () ''__name__'' = (Some [''process_cpu'', ''__hidden'', ''memory''], None)"
  using LabelValues_unfiltered [of
      "fake (Inr \<lparr>r_ProfileTypes = None\<rparr>) (Inr \<lparr>r_Series = None\<rparr>)
                   (Inr \<lparr>r_Flamegraph = None\<rparr>) (Inr \<lparr>ln_Names = None\<rparr>)
                   (Inr \<lparr>lv_Names = Some [''process_cpu'', ''__hidden'', ''memory'']\<rparr>)"
      "()" "''__name__''" "\<lparr>lv_Names = Some [''process_cpu'', ''__hidden'', ''memory'']\<rparr>"]
  by (simp add: fake_def isPrivateLabel_def HasPrefix_def)

subsection \<open>The flamegraph\<close>

text \<open>
  C8, as the spec states it, fails on the code: a response that carries a
  flamegraph is not enough. With an identifier of fewer than three components
  \<open>GetProfile\<close> builds the levels and then stops in \<open>getUnits\<close> with the
  index-out-of-range panic, so no flamebearer is returned.
\<close>

theorem GetProfile_onlyonepart_panics:
  "GetProfile (fake (Inr \<lparr>r_ProfileTypes = None\<rparr>) (Inr \<lparr>r_Series = None\<rparr>)
                 (Inr \<lparr>r_Flamegraph = Some \<lparr>fg_Names = Some [''total'', ''main''],
                        fg_Levels = Some [\<lparr>l_Values = Some [0, 10, 0, 0]\<rparr>,
                                          \<lparr>l_Values = Some [0, 10, 10, 1]\<rparr>],
                        fg_Total = 10, fg_MaxSelf = 10\<rparr>\<rparr>)
                 (Inr \<lparr>ln_Names = None\<rparr>) (Inr \<lparr>lv_Names = None\<rparr>))
     () ''onlyonepart'' ''{}'' 0 1000 None = Inl index_out_of_range"
  by (simp add: GetProfile_def fake_def getUnits_def index_def make_ptrs_def len_def assign_def)

text \<open>
  C8, amended. For every profileTypeID with at least three colon-delimited
  components and every successful merged-stacktrace response that carries a
  flamegraph, \<open>GetProfile\<close> returns a flamebearer whose levels are the upstream
  levels in order, each with its Values as received, and whose Names, Total and
  MaxSelf are those of the upstream flamegraph.
\<close>

theorem GetProfile_maps_flamegraph:
  assumes "3 \<le> length (Split profileTypeID CHR '':'')"
    and "rpc_SelectMergeStacktraces (connectClient c) ctx
           \<lparr>sm_ProfileTypeID = profileTypeID, sm_LabelSelector = labelSelector,
            sm_Start = start, sm_End = end', sm_MaxNodes = maxNodes\<rparr> = Inr resp"
    and "r_Flamegraph resp = Some flamegraph"
  shows "GetProfile c ctx profileTypeID labelSelector start end' maxNodes =
           Inr (Some \<lparr>Flamebearer =
                        Some \<lparr>Names = fg_Names flamegraph,
                              Levels = Some (map (\<lambda>level. Some \<lparr>Values = l_Values level\<rparr>)
                                              (elems (fg_Levels flamegraph))),
                              Total = fg_Total flamegraph,
                              MaxSelf = fg_MaxSelf flamegraph\<rparr>,
                      Units = NormalizeUnit (Split profileTypeID CHR '':'' ! 2)\<rparr>, None)"
  using assms
    GetProfile_flamegraph [of c ctx profileTypeID labelSelector start end' maxNodes resp flamegraph]
  by simp

theorem GetProfile_maps_flamegraph_witness:
  "GetProfile (fake (Inr \<lparr>r_ProfileTypes = None\<rparr>) (Inr \<lparr>r_Series = None\<rparr>)
                 (Inr \<lparr>r_Flamegraph = Some \<lparr>fg_Names = Some [''total'', ''main''],
                        fg_Levels = Some [\<lparr>l_Values = Some [0, 10, 0, 0]\<rparr>,
                                          \<lparr>l_Values = Some [0, 10, 10, 1]\<rparr>],
                        fg_Total = 10, fg_MaxSelf = 7\<rparr>\<rparr>)
                 (Inr \<lparr>ln_Names = None\<rparr>) (Inr \<lparr>lv_Names = None\<rparr>))
     () ''process_cpu:cpu:nanoseconds'' ''{}'' 0 1000 None =
       Inr (Some \<lparr>Flamebearer =
                    Some \<lparr>Names = Some [''total'', ''main''],
                          Levels = Some [Some \<lparr>Values = Some [0, 10, 0, 0]\<rparr>,
                                         Some \<lparr>Values = Some [0, 10, 10, 1]\<rparr>],
                          Total = 10, MaxSelf = 7\<rparr>,
                  Units = ''ns''\<rparr>, None)"
  using GetProfile_maps_flamegraph [of "''process_cpu:cpu:nanoseconds''"
      "fake (Inr \<lparr>r_ProfileTypes = None\<rparr>) (Inr \<lparr>r_Series = None\<rparr>)
                 (Inr \<lparr>r_Flamegraph = Some \<lparr>fg_Names = Some [''total'', ''main''],
                        fg_Levels = Some [\<lparr>l_Values = Some [0, 10, 0, 0]\<rparr>,
                                          \<lparr>l_Values = Some [0, 10, 10, 1]\<rparr>],
                        fg_Total = 10, fg_MaxSelf = 7\<rparr>\<rparr>)
                 (Inr \<lparr>ln_Names = None\<rparr>) (Inr \<lparr>lv_Names = None\<rparr>)"
      "()" "''{}''" 0 1000 None
      "\<lparr>r_Flamegraph = Some \<lparr>fg_Names = Some [''total'', ''main''],
                        fg_Levels = Some [\<lparr>l_Values = Some [0, 10, 0, 0]\<rparr>,
                                          \<lparr>l_Values = Some [0, 10, 10, 1]\<rparr>],
                        fg_Total = 10, fg_MaxSelf = 7\<rparr>\<rparr>"
      "\<lparr>fg_Names = Some [''total'', ''main''],
                        fg_Levels = Some [\<lparr>l_Values = Some [0, 10, 0, 0]\<rparr>,
                                          \<lparr>l_Values = Some [0, 10, 10, 1]\<rparr>],
                        fg_Total = 10, fg_MaxSelf = 7\<rparr>"]
  by (simp add: fake_def NormalizeUnit_def)

subsection \<open>One unit for both views\<close>

text \<open>
  C9. Whenever \<open>GetSeries\<close> and \<open>GetProfile\<close> both return a response for the same
  profileTypeID, the two Units fields are equal: each is what \<open>getUnits\<close> gives
  on that identifier.
\<close>

theorem Units_agree:
  assumes "GetSeries c ctx profileTypeID labelSelector start end' groupBy step = Inr (Some sr, serr)"
    and "GetProfile c' ctx' profileTypeID labelSelector' start' end'' maxNodes = Inr (Some pr, perr)"
  shows "SeriesResponse.Units sr = ProfileResponse.Units pr
       \<and> getUnits profileTypeID = Inr (SeriesResponse.Units sr)
       \<and> getUnits profileTypeID = Inr (ProfileResponse.Units pr)"
proof -
  have s: "getUnits profileTypeID = Inr (SeriesResponse.Units sr)"
    using assms(1)
    by (auto simp: GetSeries_def Let_def split: sum.splits)
  have p: "getUnits profileTypeID = Inr (ProfileResponse.Units pr)"
    using assms(2)
    by (auto simp: GetProfile_def Let_def split: sum.splits option.splits)
  from s p show ?thesis by simp
qed

theorem Units_agree_witness:
  "GetSeries (fake (Inr \<lparr>r_ProfileTypes = None\<rparr>) (Inr \<lparr>r_Series = None\<rparr>)
                (Inr \<lparr>r_Flamegraph = Some \<lparr>fg_Names = Some [''total''], fg_Levels = None,
                                            fg_Total = 3, fg_MaxSelf = 3\<rparr>\<rparr>)
                (Inr \<lparr>ln_Names = None\<rparr>) (Inr \<lparr>lv_Names = None\<rparr>))
     () ''goroutine:goroutine:count'' ''{}'' 0 1000 None 15 =
       Inr (Some \<lparr>Series = Some [], Units = ''short'', Label = ''goroutine''\<rparr>, None)
   \<and> GetProfile (fake (Inr \<lparr>r_ProfileTypes = None\<rparr>) (Inr \<lparr>r_Series = None\<rparr>)
                (Inr \<lparr>r_Flamegraph = Some \<lparr>fg_Names = Some [''total''], fg_Levels = None,
                                            fg_Total = 3, fg_MaxSelf = 3\<rparr>\<rparr>)
                (Inr \<lparr>ln_Names = None\<rparr>) (Inr \<lparr>lv_Names = None\<rparr>))
     () ''goroutine:goroutine:count'' ''{}'' 0 1000 None =
       Inr (Some \<lparr>Flamebearer = Some \<lparr>Names = Some [''total''], Levels = Some [],
                                       Total = 3, MaxSelf = 3\<rparr>,
                  Units = ''short''\<rparr>, None)
   \<and> getUnits ''goroutine:goroutine:count'' = Inr ''short''"
proof -
  let ?c = "fake (Inr \<lparr>r_ProfileTypes = None\<rparr>) (Inr \<lparr>r_Series = None\<rparr>)
                (Inr \<lparr>r_Flamegraph = Some \<lparr>fg_Names = Some [''total''], fg_Levels = None,
                                            fg_Total = 3, fg_MaxSelf = 3\<rparr>\<rparr>)
                (Inr \<lparr>ln_Names = None\<rparr>) (Inr \<lparr>lv_Names = None\<rparr>)"
  have s: "GetSeries ?c () ''goroutine:goroutine:count'' ''{}'' 0 1000 None 15 =
       Inr (Some \<lparr>Series = Some [], Units = ''short'', Label = ''goroutine''\<rparr>, None)"
    by (simp add: GetSeries_def fake_def getUnits_def index_def len_def make_ptrs_def)
  have p: "GetProfile ?c () ''goroutine:goroutine:count'' ''{}'' 0 1000 None =
       Inr (Some \<lparr>Flamebearer = Some \<lparr>Names = Some [''total''], Levels = Some [],
                                       Total = 3, MaxSelf = 3\<rparr>,
                  Units = ''short''\<rparr>, None)"
    by (simp add: GetProfile_def fake_def getUnits_def index_def len_def make_ptrs_def)
  from Units_agree [OF s p] s p show ?thesis by simp
qed

subsection \<open>Result and error\<close>

text \<open>
  C10, as stated, fails on the code: the no-data outcome of \<open>GetProfile\<close> is not
  the only one with a nil result and a nil error. \<open>LabelNames\<close> starts from the
  nil slice and appends; when every upstream name is private it returns
  \<^verbatim>\<open>nil, nil\<close>.
\<close>

theorem LabelNames_all_private_both_absent:
  "LabelNames (fake (Inr \<lparr>r_ProfileTypes = None\<rparr>) (Inr \<lparr>r_Series = None\<rparr>)
                 (Inr \<lparr>r_Flamegraph = None\<rparr>) (Inr \<lparr>ln_Names = Some [''__name__'']\<rparr>)
                 (Inr \<lparr>lv_Names = None\<rparr>)) () = (None, None)"
  by (simp add: LabelNames_def fake_def isPrivateLabel_def HasPrefix_def)

text \<open>
  C10, amended. No method returns a result together with an error. When the
  upstream call fails, each method returns the error (\<open>LabelNames\<close> a new error
  with the text of the upstream one) and a nil result. When the upstream call
  succeeds, the error is nil wherever the method returns; \<open>GetSeries\<close>, and
  \<open>GetProfile\<close> on a flamegraph, return a result exactly for an identifier of at
  least three components and panic below that. Result and error are both nil
  in three cases: \<open>GetProfile\<close> without a flamegraph, \<open>LabelNames\<close> when every
  upstream name has the private prefix (or there is none), and \<open>LabelValues\<close>
  when the upstream list is nil.
\<close>

theorem result_or_error:
  "(case rpc_ProfileTypes (connectClient c) ctx of
      Inl err \<Rightarrow> ProfileTypes c ctx = Inr (None, Some err)
    | Inr res \<Rightarrow> (\<exists>pTypes. ProfileTypes c ctx = Inr (Some pTypes, None)))
   \<and> (case rpc_SelectSeries (connectClient c) ctx
            \<lparr>ss_ProfileTypeID = profileTypeID, ss_LabelSelector = labelSelector,
             ss_Start = start, ss_End = end', ss_Step = step, ss_GroupBy = groupBy\<rparr> of
      Inl err \<Rightarrow>
        GetSeries c ctx profileTypeID labelSelector start end' groupBy step = Inr (None, Some err)
    | Inr resp \<Rightarrow>
        (if length (Split profileTypeID CHR '':'') < 3
         then GetSeries c ctx profileTypeID labelSelector start end' groupBy step =
                Inl index_out_of_range
         else (\<exists>r. GetSeries c ctx profileTypeID labelSelector start end' groupBy step =
                Inr (Some r, None))))
   \<and> (case rpc_SelectMergeStacktraces (connectClient c) ctx
            \<lparr>sm_ProfileTypeID = profileTypeID, sm_LabelSelector = labelSelector,
             sm_Start = start, sm_End = end', sm_MaxNodes = maxNodes\<rparr> of
      Inl err \<Rightarrow>
        GetProfile c ctx profileTypeID labelSelector start end' maxNodes = Inr (None, Some err)
    | Inr resp \<Rightarrow>
        (case r_Flamegraph resp of
           None \<Rightarrow>
             GetProfile c ctx profileTypeID labelSelector start end' maxNodes = Inr (None, None)
         | Some flamegraph \<Rightarrow>
             (if length (Split profileTypeID CHR '':'') < 3
              then GetProfile c ctx profileTypeID labelSelector start end' maxNodes =
                     Inl index_out_of_range
              else (\<exists>r. GetProfile c ctx profileTypeID labelSelector start end' maxNodes =
                     Inr (Some r, None)))))
   \<and> (case rpc_LabelNames (connectClient c) ctx of
      Inl err \<Rightarrow>
        LabelNames c ctx =
          (None, Some (errorString (''error seding LabelNames request '' @ Error err)))
    | Inr resp \<Rightarrow>
        snd (LabelNames c ctx) = None
        \<and> (fst (LabelNames c ctx) = None \<longleftrightarrow>
             (\<forall>name\<in>set (elems (ln_Names resp)). \<exists>rest. name = ''__'' @ rest)))
   \<and> (case rpc_LabelValues (connectClient c) ctx \<lparr>lv_Name = label\<rparr> of
      Inl err \<Rightarrow> LabelValues c ctx label = (None, Some err)
    | Inr resp \<Rightarrow> LabelValues c ctx label = (lv_Names resp, None))
   \<and> (\<forall>r e. ProfileTypes c ctx \<noteq> Inr (Some r, Some e))
   \<and> (\<forall>r e. GetSeries c ctx profileTypeID labelSelector start end' groupBy step \<noteq>
              Inr (Some r, Some e))
   \<and> (\<forall>r e. GetProfile c ctx profileTypeID labelSelector start end' maxNodes \<noteq>
              Inr (Some r, Some e))
   \<and> (\<forall>r e. LabelNames c ctx \<noteq> (Some r, Some e))
   \<and> (\<forall>r e. LabelValues c ctx label \<noteq> (Some r, Some e))"
proof -
  have pt: "case rpc_ProfileTypes (connectClient c) ctx of
      Inl err \<Rightarrow> ProfileTypes c ctx = Inr (None, Some err)
    | Inr res \<Rightarrow> (\<exists>pTypes. ProfileTypes c ctx = Inr (Some pTypes, None))"
    by (simp add: ProfileTypes_upstream_error ProfileTypes_upstream_ok split: sum.split)
  have gs: "case rpc_SelectSeries (connectClient c) ctx
            \<lparr>ss_ProfileTypeID = profileTypeID, ss_LabelSelector = labelSelector,
             ss_Start = start, ss_End = end', ss_Step = step, ss_GroupBy = groupBy\<rparr> of
      Inl err \<Rightarrow>
        GetSeries c ctx profileTypeID labelSelector start end' groupBy step = Inr (None, Some err)
    | Inr resp \<Rightarrow>
        (if length (Split profileTypeID CHR '':'') < 3
         then GetSeries c ctx profileTypeID labelSelector start end' groupBy step =
                Inl index_out_of_range
         else (\<exists>r. GetSeries c ctx profileTypeID labelSelector start end' groupBy step =
                Inr (Some r, None)))"
    by (simp add: GetSeries_upstream_error GetSeries_upstream_ok split: sum.split)
  have gp: "case rpc_SelectMergeStacktraces (connectClient c) ctx
            \<lparr>sm_ProfileTypeID = profileTypeID, sm_LabelSelector = labelSelector,
             sm_Start = start, sm_End = end', sm_MaxNodes = maxNodes\<rparr> of
      Inl err \<Rightarrow>
        GetProfile c ctx profileTypeID labelSelector start end' maxNodes = Inr (None, Some err)
    | Inr resp \<Rightarrow>
        (case r_Flamegraph resp of
           None \<Rightarrow>
             GetProfile c ctx profileTypeID labelSelector start end' maxNodes = Inr (None, None)
         | Some flamegraph \<Rightarrow>
             (if length (Split profileTypeID CHR '':'') < 3
              then GetProfile c ctx profileTypeID labelSelector start end' maxNodes =
                     Inl index_out_of_range
              else (\<exists>r. GetProfile c ctx profileTypeID labelSelector start end' maxNodes =
                     Inr (Some r, None))))"
    by (simp add: GetProfile_upstream_error GetProfile_no_flamegraph GetProfile_flamegraph
        split: sum.split option.split)
  have ln: "case rpc_LabelNames (connectClient c) ctx of
      Inl err \<Rightarrow>
        LabelNames c ctx =
          (None, Some (errorString (''error seding LabelNames request '' @ Error err)))
    | Inr resp \<Rightarrow>
        snd (LabelNames c ctx) = None
        \<and> (fst (LabelNames c ctx) = None \<longleftrightarrow>
             (\<forall>name\<in>set (elems (ln_Names resp)). \<exists>rest. name = ''__'' @ rest))"
    by (simp add: LabelNames_def filter_labels_nil isPrivateLabel_iff split: sum.split)
  have lv: "case rpc_LabelValues (connectClient c) ctx \<lparr>lv_Name = label\<rparr> of
      Inl err \<Rightarrow> LabelValues c ctx label = (None, Some err)
    | Inr resp \<Rightarrow> LabelValues c ctx label = (lv_Names resp, None)"
    by (simp add: LabelValues_def split: sum.split)
  have pt': "\<forall>r e. ProfileTypes c ctx \<noteq> Inr (Some r, Some e)"
    using pt by (cases "rpc_ProfileTypes (connectClient c) ctx") auto
  have gs': "\<forall>r e. GetSeries c ctx profileTypeID labelSelector start end' groupBy step \<noteq>
      Inr (Some r, Some e)"
    using gs by (auto split: sum.splits if_splits)
  have gp': "\<forall>r e. GetProfile c ctx profileTypeID labelSelector start end' maxNodes \<noteq>
      Inr (Some r, Some e)"
    using gp by (auto split: sum.splits option.splits if_splits)
  have ln': "\<forall>r e. LabelNames c ctx \<noteq> (Some r, Some e)"
    using ln by (cases "rpc_LabelNames (connectClient c) ctx") auto
  have lv': "\<forall>r e. LabelValues c ctx label \<noteq> (Some r, Some e)"
    using lv by (cases "rpc_LabelValues (connectClient c) ctx \<lparr>lv_Name = label\<rparr>") auto
  from pt gs gp ln lv pt' gs' gp' ln' lv' show ?thesis by (intro conjI)
qed

theorem result_or_error_witness:
  "ProfileTypes (fake (Inl (ConnectError ''unavailable'')) (Inr \<lparr>r_Series = Some []\<rparr>)
                   (Inr \<lparr>r_Flamegraph = None\<rparr>)
                   (Inr \<lparr>ln_Names = Some [''__name__'', ''__meta_x'']\<rparr>)
                   (Inr \<lparr>lv_Names = None\<rparr>)) () =
     Inr (None, Some (ConnectError ''unavailable''))
   \<and> GetSeries (fake (Inl (ConnectError ''unavailable'')) (Inr \<lparr>r_Series = Some []\<rparr>)
                   (Inr \<lparr>r_Flamegraph = None\<rparr>)
                   (Inr \<lparr>ln_Names = Some [''__name__'', ''__meta_x'']\<rparr>)
                   (Inr \<lparr>lv_Names = None\<rparr>)) () ''cpu'' ''{}'' 0 1000 None 15 =
     Inl index_out_of_range
   \<and> GetProfile (fake (Inl (ConnectError ''unavailable'')) (Inr \<lparr>r_Series = Some []\<rparr>)
                   (Inr \<lparr>r_Flamegraph = None\<rparr>)
                   (Inr \<lparr>ln_Names = Some [''__name__'', ''__meta_x'']\<rparr>)
                   (Inr \<lparr>lv_Names = None\<rparr>)) () ''cpu'' ''{}'' 0 1000 None =
     Inr (None, None)
   \<and> LabelNames (fake (Inl (ConnectError ''unavailable'')) (Inr \<lparr>r_Series = Some []\<rparr>)
                   (Inr \<lparr>r_Flamegraph = None\<rparr>)
                   (Inr \<lparr>ln_Names = Some [''__name__'', ''__meta_x'']\<rparr>)
                   (Inr \<lparr>lv_Names = None\<rparr>)) () = (None, None)
   \<and> LabelValues (fake (Inl (ConnectError ''unavailable'')) (Inr \<lparr>r_Series = Some []\<rparr>)
                   (Inr \<lparr>r_Flamegraph = None\<rparr>)
                   (Inr \<lparr>ln_Names = Some [''__name__'', ''__meta_x'']\<rparr>)
                   (Inr \<lparr>lv_Names = None\<rparr>)) () ''job'' = (None, None)"
  using result_or_error [where c =
      "fake (Inl (ConnectError ''unavailable'')) (Inr \<lparr>r_Series = Some []\<rparr>)
                   (Inr \<lparr>r_Flamegraph = None\<rparr>)
                   (Inr \<lparr>ln_Names = Some [''__name__'', ''__meta_x'']\<rparr>)
                   (Inr \<lparr>lv_Names = None\<rparr>)" and ctx = "()" and profileTypeID = "''cpu''"
      and labelSelector = "''{}''" and start = 0 and end' = 1000 and step = 15
      and groupBy = None and maxNodes = None and label = "''job''"]
  by (simp add: fake_def prod_eq_iff)

end
